theory Spec2Isabelle
  imports Main "HOL-Library.Word"
begin

section \<open>Shared values: bytes, errors, decimal text, base64\<close>

type_synonym byte = "8 word"
type_synonym bytes = "byte list"

text \<open>
  A JavaScript \<^verbatim>\<open>Error\<close> object is identified by its message text; the failure kinds of
  the job coordinator are distinguished by nothing else in the source.
\<close>

datatype js_error = Error (message: string)

text \<open>
  A JavaScript number: NaN, an integer of magnitude at most \<open>2 ^ 53\<close> (these the runtime
  holds exactly), or \<open>Large\<close>, a number of magnitude at least \<open>2 ^ 53\<close> whose value depends on
  the rounding of the runtime and is left open (\<open>Large True\<close> is negative).
\<close>

datatype js_number = NaN | Num int | Large bool

text \<open>
  Decimal rendering of a number, as a template literal \<^verbatim>\<open>`${code}`\<close> produces it for an
  integer.
\<close>

definition digit_char :: "nat \<Rightarrow> char" where
  "digit_char d = ''0123456789'' ! d"

fun show_nat :: "nat \<Rightarrow> string" where
  "show_nat n = (if n < 10 then [digit_char n] else show_nat (n div 10) @ [digit_char (n mod 10)])"

declare show_nat.simps [simp del]

definition show_int :: "int \<Rightarrow> string" where
  "show_int i = (if i < 0 then CHR ''-'' # show_nat (nat (- i)) else show_nat (nat i))"

text \<open>
  \<^verbatim>\<open>buf.toString('base64')\<close>: the standard alphabet, three bytes to four characters,
  padded with \<^verbatim>\<open>=\<close>.
\<close>

definition b64_alphabet :: string where
  "b64_alphabet = ''ABCDEFGHIJKLMNOPQRSTUVWXYZabcdefghijklmnopqrstuvwxyz0123456789+/''"

definition b64_char :: "nat \<Rightarrow> char" where
  "b64_char n = b64_alphabet ! (n mod 64)"

fun base64 :: "bytes \<Rightarrow> string" where
  "base64 (a # b # c # rest) =
     (let n = unat a * 65536 + unat b * 256 + unat c
      in b64_char (n div 262144) # b64_char (n div 4096) # b64_char (n div 64) # b64_char n
         # base64 rest)"
| "base64 [a, b] =
     (let n = unat a * 65536 + unat b * 256
      in [b64_char (n div 262144), b64_char (n div 4096), b64_char (n div 64), CHR ''=''])"
| "base64 [a] =
     (let n = unat a * 65536
      in [b64_char (n div 262144), b64_char (n div 4096), CHR ''='', CHR ''=''])"
| "base64 [] = []"

section \<open>The job coordinator: \<^verbatim>\<open>renderLocally\<close> in server/index.js\<close>

subsection \<open>The worker message protocol\<close>

text \<open>
  A success message is \<^verbatim>\<open>{ result: { outputs: [[path, bytes], ...] } }\<close>, a failure message
  is \<^verbatim>\<open>{ error: string }\<close>. A field that is absent is \<open>None\<close>. The handler tests fields
  for truthiness: an object is truthy, a string is truthy unless it is empty.
\<close>

record result_payload =
  outputs :: "(string \<times> bytes) list option"

record worker_msg =
  result :: "result_payload option"
  error :: "string option"

record job_request =
  inputs :: "(string \<times> string) list"
  args :: "string list"
  outputPaths :: "string list"

subsection \<open>The state of one job\<close>

datatype settlement = Resolved string | Rejected js_error

text \<open>
  The promise (\<open>settled\<close>), the worker handle and the deadline timer of one call.
  \<open>terminate_called\<close> records that the code has called \<^verbatim>\<open>w.terminate()\<close>; a second call on
  the same worker changes nothing. \<open>timer_delay\<close> is the number handed to
  \<^verbatim>\<open>setTimeout\<close>, \<open>None\<close> while no timer has been created; the time after which the
  timer fires is \<open>timer_duration\<close> below.
\<close>

record job =
  settled :: "settlement option"
  spawned :: bool
  timer_armed :: bool
  timer_delay :: "js_number option"
  terminate_called :: bool
  posted :: "job_request list"

text \<open>\<^verbatim>\<open>resolve\<close> and \<^verbatim>\<open>reject\<close> of a promise: only the first call has an effect.\<close>

definition resolve :: "string \<Rightarrow> job \<Rightarrow> job" where
  "resolve v j = (case settled j of None \<Rightarrow> j\<lparr>settled := Some (Resolved v)\<rparr> | Some _ \<Rightarrow> j)"

definition reject :: "js_error \<Rightarrow> job \<Rightarrow> job" where
  "reject e j = (case settled j of None \<Rightarrow> j\<lparr>settled := Some (Rejected e)\<rparr> | Some _ \<Rightarrow> j)"

definition clearTimeout :: "job \<Rightarrow> job" where
  "clearTimeout j = j\<lparr>timer_armed := False\<rparr>"

definition terminate :: "job \<Rightarrow> job" where
  "terminate j = j\<lparr>terminate_called := True\<rparr>"

definition timed_out_error :: js_error where
  "timed_out_error = Error ''OpenSCAD WASM worker timed out''"

definition no_output_error :: js_error where
  "no_output_error = Error ''No output produced by OpenSCAD WASM worker''"

definition exited_error :: "int \<Rightarrow> js_error" where
  "exited_error code = Error (''OpenSCAD worker exited with code '' @ show_int code)"

subsection \<open>The callbacks\<close>

text \<open>The timer callback; it cannot run once \<^verbatim>\<open>clearTimeout\<close> has disarmed the timer.\<close>

definition on_timeout :: "job \<Rightarrow> job" where
  "on_timeout j =
     (if timer_armed j then reject timed_out_error (terminate (j\<lparr>timer_armed := False\<rparr>)) else j)"

text \<open>\<^verbatim>\<open>w.on('message', ...)\<close>; the message is \<open>None\<close> when it is null or undefined.\<close>

definition on_message :: "worker_msg option \<Rightarrow> job \<Rightarrow> job" where
  "on_message m j =
     (case m of
        None \<Rightarrow> j
      | Some msg \<Rightarrow>
          (case result msg of
             Some res \<Rightarrow>
               (case outputs res of
                  Some ((p, out) # rest) \<Rightarrow> resolve (base64 out) (terminate (clearTimeout j))
                | Some [] \<Rightarrow> reject no_output_error (terminate (clearTimeout j))
                | None \<Rightarrow> reject no_output_error (terminate (clearTimeout j)))
           | None \<Rightarrow>
               (case error msg of
                  Some (c # cs) \<Rightarrow> reject (Error (c # cs)) (terminate (clearTimeout j))
                | Some [] \<Rightarrow> j
                | None \<Rightarrow> j)))"

text \<open>
  The two tests of the handler, \<^verbatim>\<open>msg && msg.result\<close> and \<^verbatim>\<open>msg && msg.error\<close>: the
  messages on which it acts.
\<close>

definition is_terminal :: "worker_msg option \<Rightarrow> bool" where
  "is_terminal m =
     (case m of
        None \<Rightarrow> False
      | Some msg \<Rightarrow>
          (case result msg of
             Some res \<Rightarrow> True
           | None \<Rightarrow> (case error msg of Some (c # cs) \<Rightarrow> True | Some [] \<Rightarrow> False | None \<Rightarrow> False)))"

text \<open>\<^verbatim>\<open>w.on('error', ...)\<close> and \<^verbatim>\<open>w.on('exit', ...)\<close>: each only calls \<^verbatim>\<open>reject\<close>.\<close>

definition on_error :: "js_error \<Rightarrow> job \<Rightarrow> job" where
  "on_error err j = reject err j"

definition on_exit :: "int \<Rightarrow> job \<Rightarrow> job" where
  "on_exit code j = (if code \<noteq> 0 then reject (exited_error code) j else j)"

datatype event = Message "worker_msg option" | TimerFired | WorkerError js_error | WorkerExit int

fun step :: "event \<Rightarrow> job \<Rightarrow> job" where
  "step (Message m) j = on_message m j"
| "step TimerFired j = on_timeout j"
| "step (WorkerError err) j = on_error err j"
| "step (WorkerExit code) j = on_exit code j"

fun run :: "event list \<Rightarrow> job \<Rightarrow> job" where
  "run [] j = j"
| "run (e # es) j = run es (step e j)"

subsection \<open>Starting a job\<close>

text \<open>
  \<^verbatim>\<open>parseInt(s, 10)\<close>. A string is the UTF-8 text of the value, one \<open>char\<close> a byte. Leading
  white space is skipped: the characters that the language calls WhiteSpace and
  LineTerminator, which are U+0009 to U+000D, U+0020, U+00A0, U+1680, U+2000 to U+200A,
  U+2028, U+2029, U+202F, U+205F, U+3000 and U+FEFF. \<open>white_space_length\<close> is the number
  of bytes of such a character at the front of a string, 0 when there is none.
\<close>

definition white_space_length :: "string \<Rightarrow> nat" where
  "white_space_length s =
     (let b = map of_char (take 3 s) :: nat list
      in if take 1 b \<in> {[0x09], [0x0A], [0x0B], [0x0C], [0x0D], [0x20]} then 1
         else if take 2 b = [0xC2, 0xA0] then 2
         else if b \<in> {[0xE1, 0x9A, 0x80], [0xE2, 0x80, 0xA8], [0xE2, 0x80, 0xA9],
                       [0xE2, 0x80, 0xAF], [0xE2, 0x81, 0x9F], [0xE3, 0x80, 0x80],
                       [0xEF, 0xBB, 0xBF]} then 3
         else if take 2 b = [0xE2, 0x80] \<and> length b = 3 \<and> 0x80 \<le> b ! 2 \<and> b ! 2 \<le> 0x8A then 3
         else 0)"

fun skip_space :: "string \<Rightarrow> string" where
  "skip_space [] = []"
| "skip_space (c # cs) =
     (let n = white_space_length (c # cs)
      in if n = 0 then c # cs else skip_space (drop (n - 1) cs))"

definition is_digit :: "char \<Rightarrow> bool" where
  "is_digit c = (48 \<le> (of_char c :: nat) \<and> (of_char c :: nat) \<le> 57)"

definition digit_val :: "char \<Rightarrow> nat" where
  "digit_val c = of_char c - 48"

definition digits_value :: "string \<Rightarrow> nat" where
  "digits_value ds = foldl (\<lambda>a c. 10 * a + digit_val c) 0 ds"

text \<open>
  After the white space one sign is read, then the longest run of decimal digits; with no
  digit the result is NaN. The integer of the digits is the result when it is at most
  \<open>2 ^ 53\<close>; a greater one is rounded by the runtime.
\<close>

definition parseInt10 :: "string \<Rightarrow> js_number" where
  "parseInt10 s =
     (let t = skip_space s;
          neg = (case t of c # r \<Rightarrow> c = CHR ''-'' | [] \<Rightarrow> False);
          u = (case t of c # r \<Rightarrow> if c = CHR ''-'' \<or> c = CHR ''+'' then r else t | [] \<Rightarrow> []);
          ds = takeWhile is_digit u
      in if ds = [] then NaN
         else if digits_value ds \<le> 9007199254740992
         then Num ((if neg then - 1 else 1) * int (digits_value ds))
         else Large neg)"

text \<open>
  \<^verbatim>\<open>setTimeout\<close> of the runtime: a delay that is not a number, is below 1 or is above
  \<open>TIMEOUT_MAX\<close> is replaced by 1; the result is the time in milliseconds after which the
  timer fires.
\<close>

definition TIMEOUT_MAX :: int where
  "TIMEOUT_MAX = 2147483647"

definition setTimeout_ms :: "js_number \<Rightarrow> int" where
  "setTimeout_ms after =
     (case after of
        Num a \<Rightarrow> if 1 \<le> a \<and> a \<le> TIMEOUT_MAX then a else 1
      | NaN \<Rightarrow> 1
      | Large neg \<Rightarrow> 1)"

text \<open>
  What the server process gives one call: the path of the worker wrapper and whether it
  exists, whether \<^verbatim>\<open>new Worker\<close> throws, and the environment variable.
\<close>

record coord_env =
  workerPath :: string
  wrapper_exists :: bool
  worker_ctor_throws :: "js_error option"
  OPENSCAD_WASM_TIMEOUT :: "string option"

text \<open>\<^verbatim>\<open>process.env.OPENSCAD_WASM_TIMEOUT || '120000'\<close>: unset and empty both give the default.\<close>

definition timeout_setting :: "coord_env \<Rightarrow> string" where
  "timeout_setting env =
     (case OPENSCAD_WASM_TIMEOUT env of
        None \<Rightarrow> ''120000''
      | Some [] \<Rightarrow> ''120000''
      | Some (c # cs) \<Rightarrow> c # cs)"

definition fresh_job :: job where
  "fresh_job = \<lparr>settled = None, spawned = False, timer_armed = False, timer_delay = None,
                terminate_called = False, posted = []\<rparr>"

definition render_request :: "string \<Rightarrow> job_request" where
  "render_request scadCode =
     \<lparr>inputs = [(''input.scad'', scadCode)],
      args = [''-o'', ''output.stl'', ''input.scad''],
      outputPaths = [''output.stl'']\<rparr>"

text \<open>
  The synchronous part of \<^verbatim>\<open>renderLocally\<close>: the state of the job when the executor
  returns. The callbacks above then drive it.
\<close>

definition renderLocally :: "coord_env \<Rightarrow> string \<Rightarrow> job" where
  "renderLocally env scadCode =
     (if \<not> wrapper_exists env
      then reject (Error (''openscad-worker-wrapper not found at '' @ workerPath env)) fresh_job
      else (case worker_ctor_throws env of
              Some e \<Rightarrow> reject e fresh_job
            | None \<Rightarrow>
                fresh_job\<lparr>spawned := True, timer_armed := True,
                          timer_delay := Some (parseInt10 (timeout_setting env)),
                          posted := [render_request scadCode]\<rparr>))"

text \<open>The time in milliseconds after which the deadline timer of a job fires.\<close>

definition timer_duration :: "job \<Rightarrow> int option" where
  "timer_duration j = map_option setTimeout_ms (timer_delay j)"

text \<open>An installation in which the wrapper exists and the variable is unset.\<close>

definition demo_env :: coord_env where
  "demo_env = \<lparr>workerPath = ''/srv/server/openscad-worker-wrapper.cjs'', wrapper_exists = True,
               worker_ctor_throws = None, OPENSCAD_WASM_TIMEOUT = None\<rparr>"

text \<open>The same installation with the variable set to \<open>2 ^ 32\<close>.\<close>

definition oversized_env :: coord_env where
  "oversized_env = demo_env\<lparr>OPENSCAD_WASM_TIMEOUT := Some ''4294967296''\<rparr>"

text \<open>The job of one call in that installation, and a success message of its worker.\<close>

definition demo_job :: job where
  "demo_job = renderLocally demo_env ''cube(1);''"

definition demo_success :: "worker_msg option" where
  "demo_success =
     Some \<lparr>result = Some \<lparr>outputs = Some [(''other.stl'', [0x4D, 0x61, 0x6E])]\<rparr>, error = None\<rparr>"

section \<open>The request handler: \<^verbatim>\<open>app.post('/api/render')\<close> in server/index.js\<close>

datatype json_body = ErrorJson string | RenderJson string string

datatype http_response = HttpResponse (http_status: nat) (http_json: json_body)

text \<open>
  What one request leads to: the response sent (\<open>reply\<close>, \<open>None\<close> while the handler still
  awaits the promise) and the job that \<^verbatim>\<open>renderLocally\<close> made (\<open>None\<close> when it was never
  called).
\<close>

record render_outcome =
  reply :: "http_response option"
  render_job :: "job option"

text \<open>
  The handler, for a request body whose \<^verbatim>\<open>scadCode\<close> is absent (\<open>None\<close>) or a string, and
  for the events that the runtime delivers to the job while the handler awaits it.
\<close>

definition api_render :: "coord_env \<Rightarrow> event list \<Rightarrow> string option \<Rightarrow> render_outcome" where
  "api_render env evs scadCode =
     (case scadCode of
        None \<Rightarrow>
          \<lparr>reply = Some (HttpResponse 400 (ErrorJson ''SCAD code is required'')), render_job = None\<rparr>
      | Some [] \<Rightarrow>
          \<lparr>reply = Some (HttpResponse 400 (ErrorJson ''SCAD code is required'')), render_job = None\<rparr>
      | Some (c # cs) \<Rightarrow>
          (let j = run evs (renderLocally env (c # cs))
           in \<lparr>reply =
                  (case settled j of
                     None \<Rightarrow> None
                   | Some (Resolved stlBase64) \<Rightarrow>
                       Some (HttpResponse 200 (RenderJson stlBase64 (c # cs)))
                   | Some (Rejected err) \<Rightarrow>
                       Some (HttpResponse 500 (ErrorJson ''Internal server error during rendering''))),
                render_job = Some j\<rparr>))"

section \<open>The host environment shim of the worker\<close>

subsection \<open>The response object\<close>

text \<open>
  What the worker's process gives the shim: its directory, \<^verbatim>\<open>path.join\<close>, the two
  filesystem calls (\<^verbatim>\<open>existsSync\<close> never throws, \<^verbatim>\<open>readFileSync\<close> may), whether a global
  \<^verbatim>\<open>Blob\<close> exists, and the decoding that \<^verbatim>\<open>Buffer.toString()\<close> applies.
\<close>

record node_env =
  dirname :: string
  path_join :: "string list \<Rightarrow> string"
  existsSync :: "string \<Rightarrow> bool"
  readFileSync :: "string \<Rightarrow> js_error + bytes"
  has_Blob :: bool
  utf8_decode :: "bytes \<Rightarrow> string"

text \<open>Every body that the shim stores is a \<^verbatim>\<open>Buffer\<close>: its bytes.\<close>

record response_mock =
  body :: bytes
  ok :: bool
  status :: nat
  headers :: "(string \<times> string) list"

definition ResponseMock :: "bytes \<Rightarrow> response_mock" where
  "ResponseMock b = \<lparr>body = b, ok = True, status = 200, headers = []\<rparr>"

text \<open>For a \<^verbatim>\<open>Buffer\<close>, the slice of its backing store from its offset over its length.\<close>

definition arrayBuffer :: "response_mock \<Rightarrow> bytes" where
  "arrayBuffer r = body r"

definition text_of :: "node_env \<Rightarrow> response_mock \<Rightarrow> string" where
  "text_of env r = utf8_decode env (body r)"

datatype blob_value = Blob bytes | RawBody bytes

definition blob :: "node_env \<Rightarrow> response_mock \<Rightarrow> blob_value" where
  "blob env r = (if has_Blob env then Blob (body r) else RawBody (body r))"

definition clone :: "response_mock \<Rightarrow> response_mock" where
  "clone r = ResponseMock (body r)"

subsection \<open>\<^verbatim>\<open>global.fetch\<close>\<close>

text \<open>The argument is a string or a URL object of the shim, whose text is its \<^verbatim>\<open>href\<close>.\<close>

datatype fetch_input = UrlString string | UrlObject string

fun String_of :: "fetch_input \<Rightarrow> string" where
  "String_of (UrlString s) = s"
| "String_of (UrlObject href) = href"

text \<open>\<^verbatim>\<open>.replace(/\/$/, '')\<close>: one slash at the very end is removed.\<close>

definition strip_trailing_slash :: "string \<Rightarrow> string" where
  "strip_trailing_slash s = (if s \<noteq> [] \<and> last s = CHR ''/'' then butlast s else s)"

text \<open>\<^verbatim>\<open>.split('/')\<close>: the pieces between separators, at least one piece.\<close>

fun split_on :: "char \<Rightarrow> string \<Rightarrow> string list" where
  "split_on sep [] = [[]]"
| "split_on sep (c # cs) =
     (if c = sep then [] # split_on sep cs
      else (case split_on sep cs of
              w # ws \<Rightarrow> (c # w) # ws
            | [] \<Rightarrow> [[c]]))"

definition resourceName :: "fetch_input \<Rightarrow> string" where
  "resourceName url = last (split_on CHR ''/'' (strip_trailing_slash (String_of url)))"

definition endsWith :: "string \<Rightarrow> string \<Rightarrow> bool" where
  "endsWith s suf = (length suf \<le> length s \<and> drop (length s - length suf) s = suf)"

definition distPaths :: "node_env \<Rightarrow> string \<Rightarrow> string list" where
  "distPaths env name =
     [path_join env [dirname env, ''..'', ''node_modules'', ''openscad-playground'', ''dist'', name],
      path_join env [dirname env, ''..'', ''node_modules'', ''openscad-playground'', ''dist'', ''wasm'', name],
      path_join env [dirname env, ''..'', ''node_modules'', ''browserfs'', ''dist'', name]]"

text \<open>The loop over the candidates: the first that exists is read, and the loop ends.\<close>

fun probe :: "node_env \<Rightarrow> string list \<Rightarrow> js_error + bytes option" where
  "probe env [] = Inr None"
| "probe env (filePath # rest) =
     (if existsSync env filePath
      then (case readFileSync env filePath of Inl err \<Rightarrow> Inl err | Inr d \<Rightarrow> Inr (Some d))
      else probe env rest)"

text \<open>The body of the \<^verbatim>\<open>try\<close> block; \<open>Inl\<close> is an exception thrown inside it.\<close>

definition fetch_try :: "node_env \<Rightarrow> fetch_input \<Rightarrow> js_error + response_mock" where
  "fetch_try env url =
     (let name = resourceName url
      in case probe env (distPaths env name) of
           Inl err \<Rightarrow> Inl err
         | Inr (Some d) \<Rightarrow> Inr (ResponseMock d)
         | Inr None \<Rightarrow> Inr (ResponseMock (if endsWith name ''.wasm'' then [] else [])))"

text \<open>
  The promise that \<^verbatim>\<open>fetch\<close> returns: \<open>Inr\<close> when it is fulfilled, \<open>Inl\<close> when it is
  rejected. The \<^verbatim>\<open>catch\<close> block answers an exception with an empty response.
\<close>

definition fetch :: "node_env \<Rightarrow> fetch_input \<Rightarrow> js_error + response_mock" where
  "fetch env url = (case fetch_try env url of Inl err \<Rightarrow> Inr (ResponseMock []) | Inr r \<Rightarrow> Inr r)"

subsection \<open>\<^verbatim>\<open>WebAssembly.instantiateStreaming\<close>\<close>

text \<open>
  The replacement, over the buffer-based \<^verbatim>\<open>WebAssembly.instantiate\<close> of the runtime. The
  first argument of the source is a response or a promise of one; a rejected promise is
  \<open>Inl\<close>, and the \<^verbatim>\<open>catch\<close> block throws again what it caught.
\<close>

definition instantiateStreaming ::
  "(bytes \<Rightarrow> 'i \<Rightarrow> js_error + 'm) \<Rightarrow> js_error + response_mock \<Rightarrow> 'i \<Rightarrow> js_error + 'm" where
  "instantiateStreaming instantiate responsePromise imports =
     (case responsePromise of
        Inl err \<Rightarrow> Inl err
      | Inr response \<Rightarrow> instantiate (arrayBuffer response) imports)"

subsection \<open>A small installation\<close>

text \<open>
  A worker process whose filesystem holds the listed files and nothing else, with paths
  joined by a slash.
\<close>

fun join_slash :: "string list \<Rightarrow> string" where
  "join_slash [] = []"
| "join_slash [x] = x"
| "join_slash (x # y # zs) = x @ CHR ''/'' # join_slash (y # zs)"

definition demo_node :: "(string \<times> bytes) list \<Rightarrow> node_env" where
  "demo_node files =
     \<lparr>dirname = ''/srv/server'', path_join = join_slash,
      existsSync = (\<lambda>p. map_of files p \<noteq> None),
      readFileSync = (\<lambda>p. case map_of files p of Some d \<Rightarrow> Inr d | None \<Rightarrow> Inl (Error ''ENOENT'')),
      has_Blob = True, utf8_decode = map (\<lambda>b. char_of (unat b))\<rparr>"

text \<open>
  Files of that installation: the kernel's module in the wasm subdirectory, and a file of
  the same name in the browserfs directory.
\<close>

definition demo_files :: "(string \<times> bytes) list" where
  "demo_files =
     [(''/srv/server/../node_modules/openscad-playground/dist/wasm/openscad.wasm'',
       [0x00, 0x61, 0x73, 0x6D]),
      (''/srv/server/../node_modules/browserfs/dist/openscad.wasm'', [0x01])]"

text \<open>An installation in which every path exists and no file can be read.\<close>

definition unreadable_node :: node_env where
  "unreadable_node =
     (demo_node [])\<lparr>existsSync := (\<lambda>p. True), readFileSync := (\<lambda>p. Inl (Error ''EACCES''))\<rparr>"

section \<open>Properties of the job coordinator\<close>

subsection \<open>Settlement, timer and worker under the primitive calls\<close>

text \<open>A settled promise keeps its settlement, whatever callback runs.\<close>

lemma step_settlement_final: "settled j = Some x \<Longrightarrow> settled (step e j) = Some x"
  by (cases e)
     (auto simp add: on_message_def on_timeout_def on_error_def on_exit_def resolve_def
        reject_def terminate_def clearTimeout_def split: option.splits list.splits)

lemma run_settlement_final: "settled j = Some x \<Longrightarrow> settled (run evs j) = Some x"
  by (induction evs arbitrary: j) (simp_all add: step_settlement_final)

lemma renderLocally_spawned:
  assumes "wrapper_exists env" and "worker_ctor_throws env = None"
  shows "renderLocally env scadCode =
           \<lparr>settled = None, spawned = True, timer_armed = True,
            timer_delay = Some (parseInt10 (timeout_setting env)), terminate_called = False,
            posted = [render_request scadCode]\<rparr>"
  using assms by (simp add: renderLocally_def fresh_job_def)

lemma demo_env_spawns: "wrapper_exists demo_env \<and> worker_ctor_throws demo_env = None"
  by (simp add: demo_env_def)

subsection \<open>The result extractor\<close>

text \<open>
  C2. While the promise is pending, a message whose \<^verbatim>\<open>result\<close> is present settles it: with
  a non-empty \<^verbatim>\<open>outputs\<close> the promise is resolved with the base64 text of the bytes of
  the first entry, whatever the path of that entry is; with \<^verbatim>\<open>outputs\<close> missing or empty
  it is rejected with the error 'No output produced by OpenSCAD WASM worker'.
\<close>

theorem first_output_is_encoded:
  assumes "settled j = None" and "result msg = Some res"
  shows "(outputs res = Some ((p, b) # rest) \<longrightarrow>
            settled (on_message (Some msg) j) = Some (Resolved (base64 b)))
       \<and> (outputs res = None \<or> outputs res = Some [] \<longrightarrow>
            settled (on_message (Some msg) j) =
              Some (Rejected (Error ''No output produced by OpenSCAD WASM worker'')))"
  using assms
  by (auto simp add: on_message_def resolve_def reject_def terminate_def clearTimeout_def
        no_output_error_def)

theorem first_output_is_encoded_witness:
  "settled (renderLocally demo_env ''cube(1);'') = None
   \<and> settled (on_message
        (Some \<lparr>result = Some \<lparr>outputs = Some [(''other.stl'', [0x4D, 0x61, 0x6E])]\<rparr>, error = None\<rparr>)
        (renderLocally demo_env ''cube(1);'')) = Some (Resolved ''TWFu'')
   \<and> settled (on_message (Some \<lparr>result = Some \<lparr>outputs = Some []\<rparr>, error = None\<rparr>)
        (renderLocally demo_env ''cube(1);'')) =
       Some (Rejected (Error ''No output produced by OpenSCAD WASM worker''))"
proof -
  have pending: "settled (renderLocally demo_env ''cube(1);'') = None"
    by (simp add: renderLocally_spawned demo_env_spawns)
  have enc: "base64 [0x4D, 0x61, 0x6E] = ''TWFu''"
    by (simp add: b64_char_def b64_alphabet_def)
  have one: "settled (on_message
        (Some \<lparr>result = Some \<lparr>outputs = Some [(''other.stl'', [0x4D, 0x61, 0x6E])]\<rparr>, error = None\<rparr>)
        (renderLocally demo_env ''cube(1);'')) = Some (Resolved (base64 [0x4D, 0x61, 0x6E]))"
    using first_output_is_encoded [OF pending, of _ "\<lparr>outputs = Some [(''other.stl'', [0x4D, 0x61, 0x6E])]\<rparr>"
        "''other.stl''" "[0x4D, 0x61, 0x6E]" "[]"]
    by simp
  have none: "settled (on_message (Some \<lparr>result = Some \<lparr>outputs = Some []\<rparr>, error = None\<rparr>)
        (renderLocally demo_env ''cube(1);'')) =
       Some (Rejected (Error ''No output produced by OpenSCAD WASM worker''))"
    using first_output_is_encoded [OF pending, of _ "\<lparr>outputs = Some []\<rparr>"]
    by simp
  show ?thesis using pending one none enc by simp
qed

subsection \<open>What a callback leaves behind\<close>

lemma on_message_nonterminal: "\<not> is_terminal m \<Longrightarrow> on_message m j = j"
  by (auto simp add: is_terminal_def on_message_def split: option.splits list.splits)

lemma on_message_terminal_state:
  assumes "is_terminal m"
  shows "settled (on_message m j) \<noteq> None \<and> \<not> timer_armed (on_message m j)
         \<and> terminate_called (on_message m j)"
  using assms
  by (auto simp add: is_terminal_def on_message_def resolve_def reject_def terminate_def
        clearTimeout_def split: option.splits list.splits)

lemma on_timeout_state:
  assumes "timer_armed j"
  shows "settled (on_timeout j) \<noteq> None \<and> \<not> timer_armed (on_timeout j)
         \<and> terminate_called (on_timeout j)"
  using assms
  by (auto simp add: on_timeout_def reject_def terminate_def split: option.splits)

lemma on_message_finished:
  assumes "settled j \<noteq> None" and "\<not> timer_armed j" and "terminate_called j"
  shows "on_message m j = j"
  using assms
  by (auto simp add: on_message_def resolve_def reject_def terminate_def clearTimeout_def
        split: option.splits list.splits)

lemma on_timeout_disarmed: "\<not> timer_armed j \<Longrightarrow> on_timeout j = j"
  by (simp add: on_timeout_def)

lemma run_messages_finished:
  assumes "settled j \<noteq> None" and "\<not> timer_armed j" and "terminate_called j"
  shows "run (map Message ms) j = j"
  using assms by (induction ms) (simp_all add: on_message_finished)

lemma run_messages_first_terminal:
  "run (map Message ms) j = (case find is_terminal ms of None \<Rightarrow> j | Some m \<Rightarrow> on_message m j)"
proof (induction ms arbitrary: j)
  case Nil
  show ?case by simp
next
  case (Cons m ms)
  show ?case
  proof (cases "is_terminal m")
    case True
    then have "run (map Message ms) (on_message m j) = on_message m j"
      using on_message_terminal_state [OF True, of j] by (intro run_messages_finished) simp_all
    with True show ?thesis by simp
  next
    case False
    then show ?thesis using Cons.IH [of j] by (simp add: on_message_nonterminal)
  qed
qed

lemma demo_job_state:
  "demo_job = \<lparr>settled = None, spawned = True, timer_armed = True, timer_delay = Some (Num 120000),
               terminate_called = False, posted = [render_request ''cube(1);'']\<rparr>"
  by (simp add: demo_job_def renderLocally_spawned demo_env_spawns)
     (simp add: demo_env_def timeout_setting_def parseInt10_def white_space_length_def is_digit_def
        digits_value_def digit_val_def)

subsection \<open>The race between the timer and the messages\<close>

text \<open>
  C3, as the claim states it, fails: a message \<^verbatim>\<open>{ error: '' }\<close> carries an \<^verbatim>\<open>error\<close> field,
  yet the handler ignores it (the empty string is falsy), and a later message is then
  acted upon.
\<close>

theorem empty_error_message_is_ignored:
  "on_message (Some \<lparr>result = None, error = Some ''''\<rparr>) demo_job = demo_job
   \<and> settled (run [Message (Some \<lparr>result = None, error = Some ''''\<rparr>),
                   Message (Some \<lparr>result = None, error = Some ''CGAL error''\<rparr>)] demo_job)
       = Some (Rejected (Error ''CGAL error''))"
  by (simp add: demo_job_state on_message_def reject_def terminate_def clearTimeout_def)

text \<open>
  C3, amended. The handler acts on a message exactly when its \<^verbatim>\<open>result\<close> is present or
  its \<^verbatim>\<open>error\<close> is a non-empty string. A message after the timer has fired changes
  nothing, and the timer cannot fire after such a message (it was disarmed); a message
  with no \<^verbatim>\<open>result\<close> and with no or an empty \<^verbatim>\<open>error\<close> changes nothing; of a sequence of
  messages only the first on which the handler acts has an effect; and a settlement, once
  made, survives every later event.
\<close>

theorem first_settler_wins:
  "(timer_armed j \<longrightarrow> on_message m (on_timeout j) = on_timeout j)
   \<and> (is_terminal m \<longrightarrow> on_timeout (on_message m j) = on_message m j)
   \<and> (result msg = None \<and> (error msg = None \<or> error msg = Some []) \<longrightarrow>
        on_message (Some msg) j = j)
   \<and> is_terminal (Some msg) = (result msg \<noteq> None \<or> (\<exists>e. error msg = Some e \<and> e \<noteq> []))
   \<and> run (map Message ms) j =
        (case find is_terminal ms of None \<Rightarrow> j | Some m' \<Rightarrow> on_message m' j)
   \<and> (settled j = Some x \<longrightarrow> settled (run evs j) = Some x)"
proof -
  have timer_first: "timer_armed j \<longrightarrow> on_message m (on_timeout j) = on_timeout j"
    using on_timeout_state [of j] by (auto intro: on_message_finished)
  have message_first: "is_terminal m \<longrightarrow> on_timeout (on_message m j) = on_message m j"
    using on_message_terminal_state [of m j] by (auto intro: on_timeout_disarmed)
  have ignored: "result msg = None \<and> (error msg = None \<or> error msg = Some []) \<longrightarrow>
        on_message (Some msg) j = j"
    by (auto simp add: on_message_def)
  have shape: "is_terminal (Some msg) = (result msg \<noteq> None \<or> (\<exists>e. error msg = Some e \<and> e \<noteq> []))"
    by (auto simp add: is_terminal_def split: option.splits list.splits)
  have final: "settled j = Some x \<longrightarrow> settled (run evs j) = Some x"
    by (simp add: run_settlement_final)
  show ?thesis
    using timer_first message_first ignored shape run_messages_first_terminal [of ms j] final
    by blast
qed

theorem first_settler_wins_witness:
  "timer_armed demo_job
   \<and> on_message demo_success (on_timeout demo_job) = on_timeout demo_job
   \<and> is_terminal demo_success
   \<and> on_timeout (on_message demo_success demo_job) = on_message demo_success demo_job
   \<and> on_message (Some \<lparr>result = None, error = None\<rparr>) demo_job = demo_job
   \<and> settled (run (map Message [Some \<lparr>result = None, error = None\<rparr>, demo_success, None]) demo_job)
       = Some (Resolved ''TWFu'')"
proof -
  have armed: "timer_armed demo_job"
    by (simp add: demo_job_state)
  have terminal: "is_terminal demo_success"
    by (simp add: demo_success_def is_terminal_def)
  have first: "find is_terminal [Some \<lparr>result = None, error = None\<rparr>, demo_success, None]
      = Some demo_success"
    using terminal by (simp add: is_terminal_def)
  have enc: "settled (on_message demo_success demo_job) = Some (Resolved ''TWFu'')"
    by (simp add: demo_success_def demo_job_state on_message_def resolve_def terminate_def
          clearTimeout_def b64_char_def b64_alphabet_def)
  note inst = first_settler_wins [of demo_job demo_success "\<lparr>result = None, error = None\<rparr>"
      "[Some \<lparr>result = None, error = None\<rparr>, demo_success, None]"]
  from inst armed have timer_first: "on_message demo_success (on_timeout demo_job) = on_timeout demo_job"
    by blast
  from inst terminal
  have message_first: "on_timeout (on_message demo_success demo_job) = on_message demo_success demo_job"
    by blast
  from inst have ignored: "on_message (Some \<lparr>result = None, error = None\<rparr>) demo_job = demo_job"
    by simp
  from inst
  have "run (map Message [Some \<lparr>result = None, error = None\<rparr>, demo_success, None]) demo_job =
      (case find is_terminal [Some \<lparr>result = None, error = None\<rparr>, demo_success, None] of
         None \<Rightarrow> demo_job | Some m' \<Rightarrow> on_message m' demo_job)"
    by blast
  then have "run (map Message [Some \<lparr>result = None, error = None\<rparr>, demo_success, None]) demo_job =
      on_message demo_success demo_job"
    by (simp only: first option.case)
  then have trace: "settled (run (map Message [Some \<lparr>result = None, error = None\<rparr>, demo_success, None])
      demo_job) = Some (Resolved ''TWFu'')"
    by (simp only: enc)
  from armed timer_first terminal message_first ignored trace show ?thesis
    by blast
qed

subsection \<open>The exit paths\<close>


subsection \<open>The deadline timer\<close>

lemma digit_char_props:
  assumes "d < 10"
  shows "is_digit (digit_char d) \<and> digit_val (digit_char d) = d"
proof -
  from assms have "d \<in> {0, 1, 2, 3, 4, 5, 6, 7, 8, 9}" by auto
  then show ?thesis by (auto simp add: digit_char_def is_digit_def digit_val_def)
qed

lemma digit_is_no_space:
  assumes "is_digit c"
  shows "white_space_length (c # r) = 0"
  using assms by (auto simp add: is_digit_def white_space_length_def)

lemma is_digit_plain:
  assumes "is_digit c"
  shows "skip_space (c # r) = c # r \<and> c \<noteq> CHR ''-'' \<and> c \<noteq> CHR ''+''"
  using assms digit_is_no_space [OF assms, of r] by (auto simp add: is_digit_def)

lemma show_nat_digits: "\<forall>c \<in> set (show_nat n). is_digit c"
proof (induction n rule: show_nat.induct)
  case (1 n)
  show ?case
  proof (cases "n < 10")
    case True
    then show ?thesis by (simp add: show_nat.simps [of n] digit_char_props)
  next
    case False
    then have "\<forall>c \<in> set (show_nat (n div 10)). is_digit c" using "1.IH" by simp
    with False show ?thesis by (simp add: show_nat.simps [of n] digit_char_props)
  qed
qed

lemma show_nat_nonempty: "show_nat n \<noteq> []"
  by (simp add: show_nat.simps [of n])

lemma digits_value_snoc: "digits_value (ds @ [c]) = 10 * digits_value ds + digit_val c"
  by (simp add: digits_value_def)

lemma digits_value_show_nat: "digits_value (show_nat n) = n"
proof (induction n rule: show_nat.induct)
  case (1 n)
  show ?case
  proof (cases "n < 10")
    case True
    then show ?thesis by (simp add: show_nat.simps [of n] digits_value_def digit_char_props)
  next
    case False
    then have "digits_value (show_nat (n div 10)) = n div 10" using "1.IH" by simp
    with False show ?thesis
      by (simp add: show_nat.simps [of n] digits_value_snoc digit_char_props)
  qed
qed

lemma parseInt10_show_nat:
  "parseInt10 (show_nat n) = (if n \<le> 9007199254740992 then Num (int n) else Large False)"
proof -
  obtain c r where cr: "show_nat n = c # r"
    using show_nat_nonempty [of n] by (cases "show_nat n") auto
  have all: "\<forall>x \<in> set (c # r). is_digit x"
    using show_nat_digits [of n] cr by simp
  then have c: "skip_space (c # r) = c # r \<and> c \<noteq> CHR ''-'' \<and> c \<noteq> CHR ''+''"
    using is_digit_plain [of c r] by simp
  have tw: "takeWhile is_digit (c # r) = c # r"
    using all by (simp only: takeWhile_eq_all_conv)
  have "parseInt10 (c # r) =
      (if digits_value (c # r) \<le> 9007199254740992 then Num (int (digits_value (c # r)))
       else Large False)"
    using c tw by (simp add: parseInt10_def)
  then show ?thesis using cr digits_value_show_nat [of n] by simp
qed

lemma setTimeout_ms_show_nat:
  "setTimeout_ms (parseInt10 (show_nat n)) = (if 1 \<le> n \<and> n \<le> 2147483647 then int n else 1)"
  by (simp add: parseInt10_show_nat setTimeout_ms_def TIMEOUT_MAX_def)

lemma setTimeout_ms_cases:
  "setTimeout_ms after =
     (case after of Num a \<Rightarrow> if 1 \<le> a \<and> a \<le> 2147483647 then a else 1 | NaN \<Rightarrow> 1 | Large neg \<Rightarrow> 1)"
  by (cases after) (simp_all add: setTimeout_ms_def TIMEOUT_MAX_def)

lemma timeout_setting_show_nat:
  "OPENSCAD_WASM_TIMEOUT env = Some (show_nat n) \<Longrightarrow> timeout_setting env = show_nat n"
  using show_nat_nonempty [of n]
  by (cases "show_nat n") (simp_all add: timeout_setting_def)

lemma default_timeout:
  "OPENSCAD_WASM_TIMEOUT env = None \<or> OPENSCAD_WASM_TIMEOUT env = Some [] \<Longrightarrow>
   parseInt10 (timeout_setting env) = Num 120000"
  by (auto simp add: timeout_setting_def parseInt10_def white_space_length_def is_digit_def
        digits_value_def digit_val_def)

lemma demo_setting_spawns:
  "wrapper_exists (demo_env\<lparr>OPENSCAD_WASM_TIMEOUT := s\<rparr>)"
  "worker_ctor_throws (demo_env\<lparr>OPENSCAD_WASM_TIMEOUT := s\<rparr>) = None"
  "timeout_setting (demo_env\<lparr>OPENSCAD_WASM_TIMEOUT := Some (c # cs)\<rparr>) = c # cs"
  by (simp_all add: demo_env_def timeout_setting_def)

text \<open>A pending job still has its timer: only a callback that settles disarms it.\<close>

lemma step_pending_armed:
  assumes "settled j = None \<longrightarrow> timer_armed j"
  shows "settled (step e j) = None \<longrightarrow> timer_armed (step e j)"
  using assms
  by (cases e)
     (auto simp add: on_message_def on_timeout_def on_error_def on_exit_def resolve_def
        reject_def terminate_def clearTimeout_def split: option.splits list.splits)

lemma run_pending_armed:
  assumes "settled j = None \<longrightarrow> timer_armed j"
  shows "settled (run evs j) = None \<longrightarrow> timer_armed (run evs j)"
  using assms
proof (induction evs arbitrary: j)
  case Nil
  then show ?case by simp
next
  case (Cons e evs)
  from Cons.prems have "settled (step e j) = None \<longrightarrow> timer_armed (step e j)"
    by (rule step_pending_armed)
  then show ?case using Cons.IH [of "step e j"] by simp
qed

lemma on_timeout_pending:
  assumes "settled j = None" and "timer_armed j"
  shows "on_timeout j = j\<lparr>settled := Some (Rejected timed_out_error), timer_armed := False,
                         terminate_called := True\<rparr>"
  using assms by (simp add: on_timeout_def reject_def terminate_def)

text \<open>
  C6, as the claim states it, fails: with the variable set to 4294967296 the setting
  parses to that integer and this number is handed to \<^verbatim>\<open>setTimeout\<close>, but the timer fires
  after 1 millisecond, since the runtime replaces a delay above 2147483647 by 1.
\<close>

theorem oversized_setting_expires_at_once:
  "OPENSCAD_WASM_TIMEOUT oversized_env = Some ''4294967296''
   \<and> parseInt10 ''4294967296'' = Num 4294967296
   \<and> timer_delay (renderLocally oversized_env ''cube(1);'') = Some (Num 4294967296)
   \<and> timer_duration (renderLocally oversized_env ''cube(1);'') = Some 1"
  by (simp add: timer_duration_def renderLocally_def oversized_env_def demo_env_def fresh_job_def
        timeout_setting_def setTimeout_ms_def TIMEOUT_MAX_def parseInt10_def
        white_space_length_def is_digit_def digits_value_def digit_val_def)

text \<open>
  C6, amended. A job whose worker was spawned has an armed timer, and the number handed to
  \<^verbatim>\<open>setTimeout\<close> is \<^verbatim>\<open>parseInt(process.env.OPENSCAD_WASM_TIMEOUT || '120000', 10)\<close>. For
  every setting, the timer fires after that many milliseconds when the parsed integer is
  between 1 and 2147483647, and after 1 millisecond when the setting does not parse to a
  number or parses to one outside that range. With the variable unset or empty this is
  120000; with the variable the decimal text of \<open>n\<close> it is \<open>n\<close> inside the range and 1
  outside, and the number handed over is \<open>n\<close> itself up to \<open>2 ^ 53\<close>. Whatever events came
  before, the expiry of an armed timer calls \<^verbatim>\<open>w.terminate()\<close>, and while the job is
  pending its timer is armed and the expiry rejects the promise with
  'OpenSCAD WASM worker timed out'.
\<close>

theorem deadline_timer:
  assumes "wrapper_exists env" and "worker_ctor_throws env = None"
  shows "timer_armed (renderLocally env scadCode)
       \<and> timer_delay (renderLocally env scadCode) = Some (parseInt10 (timeout_setting env))
       \<and> timer_duration (renderLocally env scadCode) =
           Some (case parseInt10 (timeout_setting env) of
                   Num a \<Rightarrow> if 1 \<le> a \<and> a \<le> 2147483647 then a else 1
                 | NaN \<Rightarrow> 1
                 | Large neg \<Rightarrow> 1)
       \<and> (OPENSCAD_WASM_TIMEOUT env = None \<or> OPENSCAD_WASM_TIMEOUT env = Some [] \<longrightarrow>
            timer_delay (renderLocally env scadCode) = Some (Num 120000)
            \<and> timer_duration (renderLocally env scadCode) = Some 120000)
       \<and> (OPENSCAD_WASM_TIMEOUT env = Some (show_nat n) \<longrightarrow>
            timer_duration (renderLocally env scadCode) =
              Some (if 1 \<le> n \<and> n \<le> 2147483647 then int n else 1))
       \<and> (n \<le> 2 ^ 53 \<and> OPENSCAD_WASM_TIMEOUT env = Some (show_nat n) \<longrightarrow>
            timer_delay (renderLocally env scadCode) = Some (Num (int n)))
       \<and> (timer_armed (run evs (renderLocally env scadCode)) \<longrightarrow>
            terminate_called (step TimerFired (run evs (renderLocally env scadCode))))
       \<and> (settled (run evs (renderLocally env scadCode)) = None \<longrightarrow>
            timer_armed (run evs (renderLocally env scadCode))
            \<and> terminate_called (step TimerFired (run evs (renderLocally env scadCode)))
            \<and> settled (step TimerFired (run evs (renderLocally env scadCode))) =
                Some (Rejected (Error ''OpenSCAD WASM worker timed out'')))"
proof -
  note start = renderLocally_spawned [OF assms, of scadCode]
  have armed: "timer_armed (renderLocally env scadCode)"
    by (simp add: start)
  have delay: "timer_delay (renderLocally env scadCode) = Some (parseInt10 (timeout_setting env))"
    by (simp add: start)
  have duration: "timer_duration (renderLocally env scadCode) =
           Some (case parseInt10 (timeout_setting env) of
                   Num a \<Rightarrow> if 1 \<le> a \<and> a \<le> 2147483647 then a else 1
                 | NaN \<Rightarrow> 1
                 | Large neg \<Rightarrow> 1)"
    by (simp add: timer_duration_def delay setTimeout_ms_cases)
  have unset: "OPENSCAD_WASM_TIMEOUT env = None \<or> OPENSCAD_WASM_TIMEOUT env = Some [] \<longrightarrow>
            timer_delay (renderLocally env scadCode) = Some (Num 120000)
            \<and> timer_duration (renderLocally env scadCode) = Some 120000"
    using default_timeout [of env]
    by (auto simp add: timer_duration_def delay setTimeout_ms_def TIMEOUT_MAX_def)
  have given: "OPENSCAD_WASM_TIMEOUT env = Some (show_nat n) \<longrightarrow>
            timer_duration (renderLocally env scadCode) =
              Some (if 1 \<le> n \<and> n \<le> 2147483647 then int n else 1)"
    by (simp add: timer_duration_def delay timeout_setting_show_nat setTimeout_ms_show_nat)
  have handed: "n \<le> 2 ^ 53 \<and> OPENSCAD_WASM_TIMEOUT env = Some (show_nat n) \<longrightarrow>
            timer_delay (renderLocally env scadCode) = Some (Num (int n))"
    by (simp add: delay timeout_setting_show_nat parseInt10_show_nat)
  have fires: "timer_armed (run evs (renderLocally env scadCode)) \<longrightarrow>
            terminate_called (step TimerFired (run evs (renderLocally env scadCode)))"
    using on_timeout_state [of "run evs (renderLocally env scadCode)"] by simp
  have expiry: "settled (run evs (renderLocally env scadCode)) = None \<longrightarrow>
            timer_armed (run evs (renderLocally env scadCode))
            \<and> terminate_called (step TimerFired (run evs (renderLocally env scadCode)))
            \<and> settled (step TimerFired (run evs (renderLocally env scadCode))) =
                Some (Rejected (Error ''OpenSCAD WASM worker timed out''))"
  proof
    assume pending: "settled (run evs (renderLocally env scadCode)) = None"
    have "settled (renderLocally env scadCode) = None \<longrightarrow> timer_armed (renderLocally env scadCode)"
      using armed by simp
    then have "timer_armed (run evs (renderLocally env scadCode))"
      using run_pending_armed [of "renderLocally env scadCode" evs] pending by simp
    then show "timer_armed (run evs (renderLocally env scadCode))
            \<and> terminate_called (step TimerFired (run evs (renderLocally env scadCode)))
            \<and> settled (step TimerFired (run evs (renderLocally env scadCode))) =
                Some (Rejected (Error ''OpenSCAD WASM worker timed out''))"
      using pending by (simp add: on_timeout_pending timed_out_error_def)
  qed
  from armed delay duration unset given handed fires expiry show ?thesis by blast
qed

theorem deadline_timer_witness:
  "wrapper_exists demo_env \<and> worker_ctor_throws demo_env = None
   \<and> timer_duration (renderLocally demo_env ''cube(1);'') = Some 120000
   \<and> timer_duration (renderLocally (demo_env\<lparr>OPENSCAD_WASM_TIMEOUT := Some ''2500''\<rparr>) ''cube(1);'')
       = Some 2500
   \<and> timer_delay (renderLocally (demo_env\<lparr>OPENSCAD_WASM_TIMEOUT := Some ''2500''\<rparr>) ''cube(1);'')
       = Some (Num 2500)
   \<and> timer_duration (renderLocally (demo_env\<lparr>OPENSCAD_WASM_TIMEOUT := Some '' 2500ms''\<rparr>) ''cube(1);'')
       = Some 2500
   \<and> timer_duration (renderLocally (demo_env\<lparr>OPENSCAD_WASM_TIMEOUT := Some ''soon''\<rparr>) ''cube(1);'')
       = Some 1
   \<and> timer_duration (renderLocally (demo_env\<lparr>OPENSCAD_WASM_TIMEOUT := Some ''0''\<rparr>) ''cube(1);'')
       = Some 1
   \<and> settled (step TimerFired
        (run [Message (Some \<lparr>result = None, error = None\<rparr>)] (renderLocally demo_env ''cube(1);'')))
       = Some (Rejected (Error ''OpenSCAD WASM worker timed out''))"
proof -
  have ok: "wrapper_exists demo_env" "worker_ctor_throws demo_env = None"
    by (simp_all add: demo_env_def)
  have unset: "OPENSCAD_WASM_TIMEOUT demo_env = None"
    by (simp add: demo_env_def)
  have dec: "show_nat 2500 = ''2500''" and zero: "show_nat 0 = ''0''"
    by (simp_all add: show_nat.simps digit_char_def)
  have small: "(2500 :: nat) \<le> 2 ^ 53"
    by simp
  have pending: "settled (run [Message (Some \<lparr>result = None, error = None\<rparr>)]
      (renderLocally demo_env ''cube(1);'')) = None"
    by (simp add: on_message_def renderLocally_spawned ok)
  from deadline_timer [OF ok, of "''cube(1);''" 0 "[Message (Some \<lparr>result = None, error = None\<rparr>)]"]
    unset pending
  have a: "timer_duration (renderLocally demo_env ''cube(1);'') = Some 120000"
    and f: "settled (step TimerFired
        (run [Message (Some \<lparr>result = None, error = None\<rparr>)] (renderLocally demo_env ''cube(1);'')))
       = Some (Rejected (Error ''OpenSCAD WASM worker timed out''))"
    by blast+
  have set2500: "OPENSCAD_WASM_TIMEOUT (demo_env\<lparr>OPENSCAD_WASM_TIMEOUT := Some ''2500''\<rparr>)
      = Some (show_nat 2500)"
    by (simp add: dec)
  from deadline_timer [OF demo_setting_spawns(1,2), of "Some ''2500''" "''cube(1);''" 2500 "[]"]
    set2500 small
  have "timer_duration (renderLocally (demo_env\<lparr>OPENSCAD_WASM_TIMEOUT := Some ''2500''\<rparr>) ''cube(1);'')
       = Some (if 1 \<le> (2500 :: nat) \<and> (2500 :: nat) \<le> 2147483647 then int 2500 else 1)"
    and "timer_delay (renderLocally (demo_env\<lparr>OPENSCAD_WASM_TIMEOUT := Some ''2500''\<rparr>) ''cube(1);'')
       = Some (Num (int 2500))"
    by blast+
  then have b: "timer_duration (renderLocally (demo_env\<lparr>OPENSCAD_WASM_TIMEOUT := Some ''2500''\<rparr>) ''cube(1);'')
       = Some 2500"
    and b': "timer_delay (renderLocally (demo_env\<lparr>OPENSCAD_WASM_TIMEOUT := Some ''2500''\<rparr>) ''cube(1);'')
       = Some (Num 2500)"
    by simp_all
  from deadline_timer [OF demo_setting_spawns(1,2), of "Some '' 2500ms''" "''cube(1);''" 0 "[]"]
  have "timer_duration (renderLocally (demo_env\<lparr>OPENSCAD_WASM_TIMEOUT := Some '' 2500ms''\<rparr>) ''cube(1);'')
       = Some (case parseInt10 (timeout_setting (demo_env\<lparr>OPENSCAD_WASM_TIMEOUT := Some '' 2500ms''\<rparr>)) of
                 Num a \<Rightarrow> if 1 \<le> a \<and> a \<le> 2147483647 then a else 1
               | NaN \<Rightarrow> 1
               | Large neg \<Rightarrow> 1)"
    by blast
  then have c: "timer_duration (renderLocally (demo_env\<lparr>OPENSCAD_WASM_TIMEOUT := Some '' 2500ms''\<rparr>) ''cube(1);'')
       = Some 2500"
    by (simp add: demo_setting_spawns(3) parseInt10_def white_space_length_def is_digit_def
          digits_value_def digit_val_def)
  from deadline_timer [OF demo_setting_spawns(1,2), of "Some ''soon''" "''cube(1);''" 0 "[]"]
  have "timer_duration (renderLocally (demo_env\<lparr>OPENSCAD_WASM_TIMEOUT := Some ''soon''\<rparr>) ''cube(1);'')
       = Some (case parseInt10 (timeout_setting (demo_env\<lparr>OPENSCAD_WASM_TIMEOUT := Some ''soon''\<rparr>)) of
                 Num a \<Rightarrow> if 1 \<le> a \<and> a \<le> 2147483647 then a else 1
               | NaN \<Rightarrow> 1
               | Large neg \<Rightarrow> 1)"
    by blast
  then have d: "timer_duration (renderLocally (demo_env\<lparr>OPENSCAD_WASM_TIMEOUT := Some ''soon''\<rparr>) ''cube(1);'')
       = Some 1"
    by (simp add: demo_setting_spawns(3) parseInt10_def white_space_length_def is_digit_def
          digits_value_def digit_val_def)
  have set0: "OPENSCAD_WASM_TIMEOUT (demo_env\<lparr>OPENSCAD_WASM_TIMEOUT := Some ''0''\<rparr>) = Some (show_nat 0)"
    by (simp add: zero)
  from deadline_timer [OF demo_setting_spawns(1,2), of "Some ''0''" "''cube(1);''" 0 "[]"] set0
  have "timer_duration (renderLocally (demo_env\<lparr>OPENSCAD_WASM_TIMEOUT := Some ''0''\<rparr>) ''cube(1);'')
       = Some (if 1 \<le> (0 :: nat) \<and> (0 :: nat) \<le> 2147483647 then int 0 else 1)"
    by blast
  then have e: "timer_duration (renderLocally (demo_env\<lparr>OPENSCAD_WASM_TIMEOUT := Some ''0''\<rparr>) ''cube(1);'')
       = Some 1"
    by simp
  from ok a b b' c d e f show ?thesis by blast
qed

section \<open>Properties of the request handler\<close>

text \<open>
  C7. A request whose \<^verbatim>\<open>scadCode\<close> is missing or the empty string is answered at once with
  status 400 and 'SCAD code is required', and \<^verbatim>\<open>renderLocally\<close> is not called for it: no
  job, hence no worker, exists for the request.
\<close>

theorem empty_script_is_refused:
  assumes "scadCode = None \<or> scadCode = Some []"
  shows "api_render env evs scadCode =
           \<lparr>reply = Some (HttpResponse 400 (ErrorJson ''SCAD code is required'')), render_job = None\<rparr>"
  using assms by (auto simp add: api_render_def)

theorem empty_script_is_refused_witness:
  "api_render demo_env [TimerFired] (Some '''') =
     \<lparr>reply = Some (HttpResponse 400 (ErrorJson ''SCAD code is required'')), render_job = None\<rparr>
   \<and> api_render demo_env [] None =
     \<lparr>reply = Some (HttpResponse 400 (ErrorJson ''SCAD code is required'')), render_job = None\<rparr>"
proof -
  have a: "Some '''' = None \<or> Some '''' = Some ([] :: string)" by simp
  have b: "(None :: string option) = None \<or> (None :: string option) = Some []" by simp
  from empty_script_is_refused [OF a, of demo_env "[TimerFired]"]
    empty_script_is_refused [OF b, of demo_env "[]"]
  show ?thesis by blast
qed

text \<open>
  C8, as the claim states it, fails: a timeout and a run without output are rejected by
  \<^verbatim>\<open>renderLocally\<close> with different messages, and the handler answers both with the same
  response, whose text names neither.
\<close>

theorem failure_replies_are_identical:
  "settled (run [TimerFired] demo_job) = Some (Rejected (Error ''OpenSCAD WASM worker timed out''))
   \<and> settled (run [Message (Some \<lparr>result = Some \<lparr>outputs = None\<rparr>, error = None\<rparr>)] demo_job)
       = Some (Rejected (Error ''No output produced by OpenSCAD WASM worker''))
   \<and> reply (api_render demo_env [TimerFired] (Some ''cube(1);''))
       = Some (HttpResponse 500 (ErrorJson ''Internal server error during rendering''))
   \<and> reply (api_render demo_env
        [Message (Some \<lparr>result = Some \<lparr>outputs = None\<rparr>, error = None\<rparr>)] (Some ''cube(1);''))
       = Some (HttpResponse 500 (ErrorJson ''Internal server error during rendering''))"
  by (simp add: api_render_def demo_job_state [unfolded demo_job_def] demo_job_state
        on_timeout_def on_message_def reject_def terminate_def clearTimeout_def
        timed_out_error_def no_output_error_def)

text \<open>
  C8, amended. Whatever error \<^verbatim>\<open>renderLocally\<close> rejects with, the handler answers with status
  500 and the one fixed text 'Internal server error during rendering'. The failure kinds
  stay distinct only in the rejection of \<^verbatim>\<open>renderLocally\<close>: on a pending job the timer, an
  error message, the worker's \<^verbatim>\<open>error\<close> event, a nonzero exit and a result without output
  each reject with their own message.
\<close>

theorem failures_answer_500_with_fixed_text:
  "(settled (run evs (renderLocally env (c # cs))) = Some (Rejected err) \<longrightarrow>
      reply (api_render env evs (Some (c # cs))) =
        Some (HttpResponse 500 (ErrorJson ''Internal server error during rendering'')))
   \<and> (settled j = None \<longrightarrow>
        (timer_armed j \<longrightarrow>
           settled (step TimerFired j) = Some (Rejected (Error ''OpenSCAD WASM worker timed out'')))
        \<and> (e \<noteq> [] \<longrightarrow>
             settled (step (Message (Some \<lparr>result = None, error = Some e\<rparr>)) j)
               = Some (Rejected (Error e)))
        \<and> settled (step (WorkerError crash) j) = Some (Rejected crash)
        \<and> (code \<noteq> 0 \<longrightarrow>
             settled (step (WorkerExit code) j)
               = Some (Rejected (Error (''OpenSCAD worker exited with code '' @ show_int code))))
        \<and> settled (step (Message (Some \<lparr>result = Some \<lparr>outputs = None\<rparr>, error = x\<rparr>)) j)
             = Some (Rejected (Error ''No output produced by OpenSCAD WASM worker'')))"
proof -
  have boundary: "settled (run evs (renderLocally env (c # cs))) = Some (Rejected err) \<longrightarrow>
      reply (api_render env evs (Some (c # cs))) =
        Some (HttpResponse 500 (ErrorJson ''Internal server error during rendering''))"
    by (simp add: api_render_def)
  have timer: "settled j = None \<longrightarrow> timer_armed j \<longrightarrow>
      settled (step TimerFired j) = Some (Rejected (Error ''OpenSCAD WASM worker timed out''))"
    by (simp add: on_timeout_pending timed_out_error_def)
  have reported: "settled j = None \<longrightarrow> e \<noteq> [] \<longrightarrow>
      settled (step (Message (Some \<lparr>result = None, error = Some e\<rparr>)) j) = Some (Rejected (Error e))"
    by (cases e) (simp_all add: on_message_def reject_def terminate_def clearTimeout_def)
  have crashed: "settled j = None \<longrightarrow> settled (step (WorkerError crash) j) = Some (Rejected crash)"
    by (simp add: on_error_def reject_def)
  have exited: "settled j = None \<longrightarrow> code \<noteq> 0 \<longrightarrow>
      settled (step (WorkerExit code) j)
        = Some (Rejected (Error (''OpenSCAD worker exited with code '' @ show_int code)))"
    by (simp add: on_exit_def reject_def exited_error_def)
  have empty: "settled j = None \<longrightarrow>
      settled (step (Message (Some \<lparr>result = Some \<lparr>outputs = None\<rparr>, error = x\<rparr>)) j)
        = Some (Rejected (Error ''No output produced by OpenSCAD WASM worker''))"
    by (simp add: on_message_def reject_def terminate_def clearTimeout_def no_output_error_def)
  from boundary timer reported crashed exited empty show ?thesis by blast
qed

theorem failures_answer_500_with_fixed_text_witness:
  "settled (run [WorkerExit 3] (renderLocally demo_env ''cube(1);''))
     = Some (Rejected (Error ''OpenSCAD worker exited with code 3''))
   \<and> reply (api_render demo_env [WorkerExit 3] (Some ''cube(1);''))
     = Some (HttpResponse 500 (ErrorJson ''Internal server error during rendering''))
   \<and> settled (step (Message (Some \<lparr>result = None, error = Some ''CGAL error''\<rparr>)) demo_job)
     = Some (Rejected (Error ''CGAL error''))"
proof -
  have pending: "settled demo_job = None" and armed: "timer_armed demo_job"
    by (simp_all add: demo_job_state)
  have three: "(3 :: int) \<noteq> 0" and text3: "show_int 3 = ''3''" and nonempty: "''CGAL error'' \<noteq> []"
    by (simp_all add: show_int_def show_nat.simps digit_char_def)
  note inst = failures_answer_500_with_fixed_text [of "[WorkerExit 3]" demo_env "CHR ''c''" "''ube(1);''"
      "Error ''OpenSCAD worker exited with code 3''" demo_job "''CGAL error''" "Error ''boom''" 3 None]
  from inst pending three text3
  have exit3: "settled (step (WorkerExit 3) demo_job)
      = Some (Rejected (Error ''OpenSCAD worker exited with code 3''))"
    by simp
  then have run3: "settled (run [WorkerExit 3] (renderLocally demo_env ''cube(1);''))
      = Some (Rejected (Error ''OpenSCAD worker exited with code 3''))"
    by (simp add: demo_job_def)
  from inst run3
  have reply3: "reply (api_render demo_env [WorkerExit 3] (Some ''cube(1);''))
      = Some (HttpResponse 500 (ErrorJson ''Internal server error during rendering''))"
    by simp
  from inst pending nonempty
  have reported: "settled (step (Message (Some \<lparr>result = None, error = Some ''CGAL error''\<rparr>)) demo_job)
      = Some (Rejected (Error ''CGAL error''))"
    by blast
  from run3 reply3 reported show ?thesis by blast
qed

section \<open>Properties of the shim\<close>

subsection \<open>Splitting a path\<close>

lemma split_on_nonempty: "split_on sep s \<noteq> []"
  by (induction s) (auto split: list.splits)

lemma split_on_no_separator: "sep \<notin> set s \<Longrightarrow> split_on sep s = [s]"
  by (induction s) auto

lemma split_on_two_pieces: "2 \<le> length (split_on sep (xs @ sep # ys))"
proof (induction xs)
  case Nil
  have "split_on sep ys \<noteq> []" by (rule split_on_nonempty)
  then have "1 \<le> length (split_on sep ys)" by (cases "split_on sep ys") simp_all
  then show ?case by simp
next
  case (Cons x xs)
  then show ?case by (auto split: list.splits)
qed

lemma last_split_on_after_separator:
  "last (split_on sep (xs @ sep # ys)) = last (split_on sep ys)"
proof (induction xs)
  case Nil
  show ?case by (simp add: split_on_nonempty)
next
  case (Cons x xs)
  show ?case
  proof (cases "x = sep")
    case True
    then show ?thesis using Cons.IH by (simp add: split_on_nonempty)
  next
    case False
    obtain w ws where parts: "split_on sep (xs @ sep # ys) = w # ws"
      using split_on_nonempty [of sep "xs @ sep # ys"] by (cases "split_on sep (xs @ sep # ys)") auto
    have "ws \<noteq> []"
      using split_on_two_pieces [of sep xs ys] parts by auto
    then have "last ((x # w) # ws) = last (w # ws)" by simp
    then show ?thesis using False parts Cons.IH by simp
  qed
qed

lemma strip_trailing_slash_snoc: "strip_trailing_slash (s @ ''/'') = s"
  by (simp add: strip_trailing_slash_def)

lemma strip_trailing_slash_keeps:
  assumes "name \<noteq> []" and "CHR ''/'' \<notin> set name"
  shows "strip_trailing_slash (dir @ name) = dir @ name"
proof -
  have "last (dir @ name) = last name" using assms(1) by simp
  moreover have "last name \<in> set name" using assms(1) by simp
  ultimately have "last (dir @ name) \<noteq> CHR ''/''" using assms(2) by metis
  then show ?thesis by (simp add: strip_trailing_slash_def)
qed

lemma resourceName_segment:
  assumes "name \<noteq> []" and "CHR ''/'' \<notin> set name"
  shows "resourceName (UrlString name) = name"
    and "resourceName (UrlString (name @ ''/'')) = name"
    and "resourceName (UrlString (dir @ ''/'' @ name)) = name"
    and "resourceName (UrlString (dir @ ''/'' @ name @ ''/'')) = name"
proof -
  show "resourceName (UrlString name) = name"
    using assms strip_trailing_slash_keeps [of name "[]"]
    by (simp add: resourceName_def split_on_no_separator)
  show "resourceName (UrlString (name @ ''/'')) = name"
    using assms by (simp add: resourceName_def strip_trailing_slash_snoc split_on_no_separator)
  have "strip_trailing_slash (dir @ ''/'' @ name) = dir @ CHR ''/'' # name"
    using strip_trailing_slash_keeps [OF assms, of "dir @ ''/''"] by simp
  then show "resourceName (UrlString (dir @ ''/'' @ name)) = name"
    using assms by (simp add: resourceName_def last_split_on_after_separator split_on_no_separator)
  have "strip_trailing_slash (dir @ ''/'' @ name @ ''/'') = dir @ CHR ''/'' # name"
    using strip_trailing_slash_snoc [of "dir @ ''/'' @ name"] by simp
  then show "resourceName (UrlString (dir @ ''/'' @ name @ ''/'')) = name"
    using assms by (simp add: resourceName_def last_split_on_after_separator split_on_no_separator)
qed

subsection \<open>Probing the candidates\<close>

lemma probe_first_existing:
  "find (existsSync env) ps = Some p \<Longrightarrow>
   probe env ps = (case readFileSync env p of Inl err \<Rightarrow> Inl err | Inr d \<Rightarrow> Inr (Some d))"
  by (induction ps) (auto split: if_splits)

lemma probe_none_existing: "\<forall>p \<in> set ps. \<not> existsSync env p \<Longrightarrow> probe env ps = Inr None"
  by (induction ps) auto

lemma fetch_is_ResponseMock: "\<exists>d. fetch env url = Inr (ResponseMock d)"
  by (auto simp add: fetch_def fetch_try_def Let_def split: sum.splits option.splits)

lemma fetch_unresolved:
  assumes "\<forall>p \<in> set (distPaths env (resourceName url)). \<not> existsSync env p"
  shows "fetch env url = Inr (ResponseMock [])"
  using probe_none_existing [OF assms] by (simp add: fetch_def fetch_try_def)

lemma fetch_first_existing:
  assumes "find (existsSync env) (distPaths env (resourceName url)) = Some p"
    and "readFileSync env p = Inr d"
  shows "fetch env url = Inr (ResponseMock d)"
  using probe_first_existing [OF assms(1)] assms(2) by (simp add: fetch_def fetch_try_def)

subsection \<open>The fetch function\<close>

text \<open>
  C4. The promise that \<^verbatim>\<open>fetch\<close> returns is always fulfilled, never rejected, with a
  \<^verbatim>\<open>ResponseMock\<close> (so \<^verbatim>\<open>clone()\<close> gives an equal response); when none of the candidate
  paths exists, the body is the empty buffer, and \<^verbatim>\<open>arrayBuffer()\<close>, \<^verbatim>\<open>text()\<close>, \<^verbatim>\<open>blob()\<close>
  and \<^verbatim>\<open>clone()\<close> give the empty contents.
\<close>

theorem fetch_never_rejects:
  "\<exists>r. fetch env url = Inr r \<and> clone r = r
       \<and> ((\<forall>p \<in> set (distPaths env (resourceName url)). \<not> existsSync env p) \<longrightarrow>
             body r = [] \<and> arrayBuffer r = [] \<and> text_of env r = utf8_decode env []
             \<and> (blob env r = Blob [] \<or> blob env r = RawBody []) \<and> body (clone r) = [])"
proof -
  obtain d where d: "fetch env url = Inr (ResponseMock d)"
    using fetch_is_ResponseMock [of env url] by blast
  have copy: "clone (ResponseMock d) = ResponseMock d"
    by (simp add: clone_def ResponseMock_def)
  have empty: "(\<forall>p \<in> set (distPaths env (resourceName url)). \<not> existsSync env p) \<longrightarrow> d = []"
    using fetch_unresolved [of env url] d by (auto simp add: ResponseMock_def)
  have methods: "body (ResponseMock []) = [] \<and> arrayBuffer (ResponseMock []) = []
      \<and> text_of env (ResponseMock []) = utf8_decode env []
      \<and> (blob env (ResponseMock []) = Blob [] \<or> blob env (ResponseMock []) = RawBody [])
      \<and> body (clone (ResponseMock [])) = []"
    by (simp add: ResponseMock_def arrayBuffer_def text_of_def blob_def clone_def)
  from d copy empty methods show ?thesis by blast
qed

theorem fetch_never_rejects_witness:
  "fetch (demo_node []) (UrlString ''https://example.org/openscad.wasm'') = Inr (ResponseMock [])
   \<and> arrayBuffer (ResponseMock []) = []"
proof -
  have missing: "\<forall>p \<in> set (distPaths (demo_node [])
      (resourceName (UrlString ''https://example.org/openscad.wasm''))). \<not> existsSync (demo_node []) p"
    by (simp add: demo_node_def)
  from fetch_never_rejects [of "demo_node []" "UrlString ''https://example.org/openscad.wasm''"] missing
  obtain r where r: "fetch (demo_node []) (UrlString ''https://example.org/openscad.wasm'') = Inr r"
    and copy: "clone r = r" and empty: "body r = []" and buf: "arrayBuffer r = []"
    by blast
  from copy empty have "r = ResponseMock []" by (simp add: clone_def)
  with r buf show ?thesis by simp
qed

text \<open>
  C10. Every response that \<^verbatim>\<open>fetch\<close> gives, for a resolved name, an unresolved one and a
  failed read alike, has \<^verbatim>\<open>ok\<close> true and \<^verbatim>\<open>status\<close> 200.
\<close>

theorem fetch_is_always_ok_200:
  "\<exists>r. fetch env url = Inr r \<and> ok r \<and> status r = 200"
  using fetch_is_ResponseMock [of env url] by (auto simp add: ResponseMock_def)

theorem fetch_is_always_ok_200_witness:
  "fetch unreadable_node (UrlString ''openscad.wasm'') =
     Inr \<lparr>body = [], ok = True, status = 200, headers = []\<rparr>"
proof -
  from fetch_is_always_ok_200 [of unreadable_node "UrlString ''openscad.wasm''"]
  obtain r where r: "fetch unreadable_node (UrlString ''openscad.wasm'') = Inr r"
    and flags: "ok r" "status r = 200"
    by blast
  have "fetch unreadable_node (UrlString ''openscad.wasm'') = Inr (ResponseMock [])"
    by (simp add: fetch_def fetch_try_def unreadable_node_def distPaths_def)
  with r have "r = ResponseMock []" by simp
  with r flags show ?thesis by (simp add: ResponseMock_def)
qed

subsection \<open>The asset resolver\<close>

text \<open>
  C5, as the claim states it, fails: of two trailing separators the code strips one, so
  for \<^verbatim>\<open>lib//\<close> the resource name is empty, where the final segment of the path without
  its trailing separators is \<^verbatim>\<open>lib\<close>.
\<close>

theorem second_trailing_slash_is_kept:
  "resourceName (UrlString ''lib//'') = ''''
   \<and> last (split_on CHR ''/'' (rev (dropWhile ((=) CHR ''/'') (rev ''lib//'')))) = ''lib''"
  by (simp add: resourceName_def strip_trailing_slash_def)

text \<open>
  C5, amended. The resolver strips one trailing separator, if there is one, and takes the
  final segment as the resource name: a name after a directory, with or without one
  trailing separator, is found, and a path with two trailing separators has the empty
  name. It probes, in this order, the openscad-playground dist directory, its wasm
  subdirectory and the browserfs dist directory, and fulfils with the bytes read from the
  first candidate that exists.
\<close>

theorem resolver_returns_first_match:
  "(name \<noteq> [] \<and> CHR ''/'' \<notin> set name \<longrightarrow>
      resourceName (UrlString name) = name
      \<and> resourceName (UrlString (name @ ''/'')) = name
      \<and> resourceName (UrlString (dir @ ''/'' @ name)) = name
      \<and> resourceName (UrlString (dir @ ''/'' @ name @ ''/'')) = name)
   \<and> resourceName (UrlString (s @ ''//'')) = []
   \<and> distPaths env n =
       [path_join env [dirname env, ''..'', ''node_modules'', ''openscad-playground'', ''dist'', n],
        path_join env [dirname env, ''..'', ''node_modules'', ''openscad-playground'', ''dist'', ''wasm'', n],
        path_join env [dirname env, ''..'', ''node_modules'', ''browserfs'', ''dist'', n]]
   \<and> (find (existsSync env) (distPaths env (resourceName url)) = Some p \<and> readFileSync env p = Inr d
        \<longrightarrow> fetch env url = Inr (ResponseMock d))"
proof -
  have names: "name \<noteq> [] \<and> CHR ''/'' \<notin> set name \<longrightarrow>
      resourceName (UrlString name) = name
      \<and> resourceName (UrlString (name @ ''/'')) = name
      \<and> resourceName (UrlString (dir @ ''/'' @ name)) = name
      \<and> resourceName (UrlString (dir @ ''/'' @ name @ ''/'')) = name"
    using resourceName_segment(1) [of name] resourceName_segment(2) [of name]
      resourceName_segment(3) [of name dir] resourceName_segment(4) [of name dir]
    by blast
  have "strip_trailing_slash (s @ ''//'') = s @ ''/''"
    using strip_trailing_slash_snoc [of "s @ ''/''"] by simp
  then have double: "resourceName (UrlString (s @ ''//'')) = []"
    using last_split_on_after_separator [of "CHR ''/''" s "[]"] by (simp add: resourceName_def)
  have order: "distPaths env n =
       [path_join env [dirname env, ''..'', ''node_modules'', ''openscad-playground'', ''dist'', n],
        path_join env [dirname env, ''..'', ''node_modules'', ''openscad-playground'', ''dist'', ''wasm'', n],
        path_join env [dirname env, ''..'', ''node_modules'', ''browserfs'', ''dist'', n]]"
    by (simp add: distPaths_def)
  have first: "find (existsSync env) (distPaths env (resourceName url)) = Some p
      \<and> readFileSync env p = Inr d \<longrightarrow> fetch env url = Inr (ResponseMock d)"
    using fetch_first_existing [of env url p d] by blast
  from names double order first show ?thesis by blast
qed

theorem resolver_returns_first_match_witness:
  "resourceName (UrlString ''https://host/pkg/openscad.wasm/'') = ''openscad.wasm''
   \<and> fetch (demo_node demo_files) (UrlString ''https://host/pkg/openscad.wasm/'')
       = Inr (ResponseMock [0x00, 0x61, 0x73, 0x6D])"
proof -
  note inst = resolver_returns_first_match [of "''openscad.wasm''" "''https://host/pkg''" "[]"
      "demo_node demo_files" "''openscad.wasm''" "UrlString ''https://host/pkg/openscad.wasm/''"
      "''/srv/server/../node_modules/openscad-playground/dist/wasm/openscad.wasm''"
      "[0x00, 0x61, 0x73, 0x6D]"]
  have plain: "''openscad.wasm'' \<noteq> [] \<and> CHR ''/'' \<notin> set ''openscad.wasm''"
    by simp
  from inst plain
  have name: "resourceName (UrlString ''https://host/pkg/openscad.wasm/'') = ''openscad.wasm''"
    by simp
  have found: "find (existsSync (demo_node demo_files)) (distPaths (demo_node demo_files) ''openscad.wasm'')
      = Some ''/srv/server/../node_modules/openscad-playground/dist/wasm/openscad.wasm''"
    by (simp add: distPaths_def demo_node_def demo_files_def)
  have read: "readFileSync (demo_node demo_files)
      ''/srv/server/../node_modules/openscad-playground/dist/wasm/openscad.wasm''
      = Inr [0x00, 0x61, 0x73, 0x6D]"
    by (simp add: demo_node_def demo_files_def)
  from inst found read name
  have "fetch (demo_node demo_files) (UrlString ''https://host/pkg/openscad.wasm/'')
       = Inr (ResponseMock [0x00, 0x61, 0x73, 0x6D])"
    by simp
  with name show ?thesis by blast
qed

subsection \<open>Instantiation from a response\<close>

text \<open>
  C9. The replacement of \<^verbatim>\<open>WebAssembly.instantiateStreaming\<close> awaits the response, takes
  the whole buffer of its body with \<^verbatim>\<open>arrayBuffer()\<close> and gives what the buffer-based
  \<^verbatim>\<open>WebAssembly.instantiate\<close> gives on these bytes and the same imports; a rejected
  response promise is passed on. For a response of the shim's \<^verbatim>\<open>fetch\<close> this is the
  instantiation of the bytes that were fetched.
\<close>

theorem streaming_is_buffer_instantiation:
  "instantiateStreaming instantiate (Inr response) imports = instantiate (arrayBuffer response) imports
   \<and> arrayBuffer response = body response
   \<and> instantiateStreaming instantiate (Inl err) imports = Inl err
   \<and> (\<exists>r. fetch env url = Inr r
        \<and> instantiateStreaming instantiate (fetch env url) imports = instantiate (body r) imports)"
proof -
  obtain d where d: "fetch env url = Inr (ResponseMock d)"
    using fetch_is_ResponseMock [of env url] by blast
  then have "instantiateStreaming instantiate (fetch env url) imports
      = instantiate (body (ResponseMock d)) imports"
    by (simp add: instantiateStreaming_def arrayBuffer_def)
  with d show ?thesis by (simp add: instantiateStreaming_def arrayBuffer_def)
qed

end
